theory Spec2Isabelle
  imports Main
begin

section \<open>Values exchanged with the clients\<close>

text \<open>
  The server of the blog (the Express application with its routes \<open>/api/auth/sign-up\<close>,
  \<open>/api/auth/sign-in\<close>, \<open>/api/posts\<close>, \<open>/api/comments\<close> and \<open>/api/likes\<close>) is embedded as pure
  functions over an explicit database value. Every handler returns the database after the
  request, the calls it made to its collaborators (argon2, jsonwebtoken, the database
  pool), in order, and either the error that reaches Express's error handling or the
  response it sent.

  The payload that sign-in signs is \<open>{ userId, username }\<close>.
\<close>

datatype payload = Payload (payload_userId: nat) (payload_username: string)

text \<open>
  jsonwebtoken is a library. Its tokens are kept symbolic: \<open>Signed k p i e\<close> is the compact
  token whose HS256 signature was made with the key \<open>k\<close> over the claims \<open>p\<close>, the time of
  issue \<open>i\<close> and the expiry \<open>e\<close> (when the token has one); \<open>Malformed s\<close> is any other text
  in the \<open>x-access-token\<close> header. Times are seconds.
\<close>

datatype access_token =
    Malformed string
  | Signed (signing_key: string) (claims: payload) (iat: nat) (exp: "nat option")

datatype json =
    JNull
  | JBool bool
  | JNum int
  | JStr string
  | JToken access_token
  | JArr "json list"
  | JObj "(string \<times> json) list"

datatype db_error = UniqueViolation

text \<open>
  \<open>ClientError status message\<close> is the repository's own error class, the only one that the
  server raises itself. The others are what the collaborators reject or throw with:
  the database's errors, jsonwebtoken's \<open>JsonWebTokenError\<close>, and JavaScript's \<open>Error\<close> and
  \<open>TypeError\<close>, each with its message. \<open>AuthenticationError\<close> is the failure of the
  authorization gate (see below).
\<close>

datatype error =
    ClientError nat string
  | DatabaseError db_error
  | JsonWebTokenError string
  | Error string
  | TypeError string
  | AuthenticationError

text \<open>\<open>res.status(s).json(v)\<close>; \<open>json(undefined)\<close> sends no body, which is \<open>None\<close>.\<close>

datatype response = Response nat "json option"

datatype statement =
    InsertUser | SelectUser | InsertPost | InsertComment | SelectUsername
  | InsertLike | DeleteLike

datatype call = Argon2_hash | Argon2_verify | Jwt_sign | Jwt_verify | Db_query statement

section \<open>The database\<close>

text \<open>
  The tables hold the columns that the statements of the server name. The declaration of
  the tables is not part of the sources.
\<close>

record user_row =
  userId :: nat
  username :: string
  hashedPassword :: string
  email :: string

record post_row =
  postId :: nat
  post_userId :: nat
  imageUrl :: string
  summary :: string
  title :: string
  body :: string
  createdAt :: nat

record comment_row =
  comment_postId :: nat
  comment_userId :: nat
  content :: string
  comment_createdAt :: nat

record like_row =
  like_postId :: nat
  like_userId :: nat

record database =
  users :: "user_row list"
  posts :: "post_row list"
  comments :: "comment_row list"
  likePosts :: "like_row list"

text \<open>
  What the server is configured with: the signing secret \<open>process.env.TOKEN_SECRET\<close>
  (\<open>None\<close> when the variable is not set), the argon2 library (\<open>argon2_hash salt plain\<close> with
  the salt that the library draws made explicit, \<open>argon2_verify digest plain\<close>), and whether
  the table \<open>likePosts\<close> is declared with a uniqueness constraint on
  \<open>("postId", "userId")\<close>, which decides what \<open>on conflict do nothing\<close> does.

  \<open>argon2.verify(digest, plain)\<close> returns a promise. It resolves to a boolean, which is
  \<open>Inr\<close>, or it rejects with an error, which is \<open>Inl\<close>: the library rejects when \<open>plain\<close> is
  neither a text nor bytes (a number, say) and when it cannot decode the digest. Sign-in
  passes the password as the body of the request has it, so \<open>plain\<close> is a JSON value.
\<close>

record config =
  TOKEN_SECRET :: "string option"
  argon2_hash :: "string \<Rightarrow> string \<Rightarrow> string"
  argon2_verify :: "string \<Rightarrow> json \<Rightarrow> error + bool"
  likePosts_unique :: bool

text \<open>
  Modelled from the spec: the declaration of the tables, with the default of their
  identifier columns, is not among the sources. The identifier of a new row is assigned
  by the persistence collaborator and is unique; here it is one more than the largest
  identifier in use.
\<close>

definition fresh_id :: "nat list \<Rightarrow> nat" where
  "fresh_id ids = Suc (fold max ids 0)"

definition user_public :: "user_row \<Rightarrow> (string \<times> json) list" where
  "user_public u =
     [(''userId'', JNum (int (userId u))), (''username'', JStr (username u)),
      (''email'', JStr (email u))]"

text \<open>
  Modelled from the spec: the declaration of the table \<open>users\<close> is not among the sources.
  The spec gives it as \<open>Account(accountId PK, loginName UNIQUE, credentialHash, emailAddress)\<close>,
  and an insert that violates the uniqueness of the name is rejected by the collaborator
  as a uniqueness violation. The statement is the one of sign-up:
  \<^verbatim>\<open>insert into "users" ("username", "hashedPassword", "email") values ($1, $2, $3)
  returning "userId", "username", "email"\<close>
\<close>

definition insert_user ::
  "database \<Rightarrow> string \<Rightarrow> string \<Rightarrow> string \<Rightarrow> database \<times> (error + (string \<times> json) list list)"
where
  "insert_user db name hashed mail =
     (if name \<in> set (map username (users db)) then (db, Inl (DatabaseError UniqueViolation))
      else
        let row = \<lparr>userId = fresh_id (map userId (users db)), username = name,
                   hashedPassword = hashed, email = mail\<rparr>
        in (db\<lparr>users := users db @ [row]\<rparr>, Inr [user_public row]))"

text \<open>\<^verbatim>\<open>select "userId", "hashedPassword" from "users" where "username" = $1\<close>\<close>

definition select_user :: "database \<Rightarrow> string \<Rightarrow> user_row list" where
  "select_user db name = filter (\<lambda>u. username u = name) (users db)"

definition post_json :: "post_row \<Rightarrow> (string \<times> json) list" where
  "post_json p =
     [(''postId'', JNum (int (postId p))), (''userId'', JNum (int (post_userId p))),
      (''imageUrl'', JStr (imageUrl p)), (''summary'', JStr (summary p)),
      (''title'', JStr (title p)), (''body'', JStr (body p)),
      (''createdAt'', JNum (int (createdAt p)))]"

text \<open>
  \<^verbatim>\<open>insert into "posts" ("userId", "imageUrl", "summary", "title", "body")
  values ($1, $2, $3, $4, $5) returning *\<close>
\<close>

definition insert_post ::
  "database \<Rightarrow> nat \<Rightarrow> nat \<Rightarrow> string \<Rightarrow> string \<Rightarrow> string \<Rightarrow> string
    \<Rightarrow> database \<times> (string \<times> json) list list"
where
  "insert_post db now uid img summ ttl bdy =
     (let row = \<lparr>postId = fresh_id (map postId (posts db)), post_userId = uid,
                 imageUrl = img, summary = summ, title = ttl, body = bdy,
                 createdAt = now\<rparr>
      in (db\<lparr>posts := posts db @ [row]\<rparr>, [post_json row]))"

definition comment_json :: "comment_row \<Rightarrow> (string \<times> json) list" where
  "comment_json c =
     [(''postId'', JNum (int (comment_postId c))), (''userId'', JNum (int (comment_userId c))),
      (''content'', JStr (content c)), (''createdAt'', JNum (int (comment_createdAt c)))]"

text \<open>
  \<^verbatim>\<open>insert into "comments" ("postId", "userId", "content") values ($1, $2, $3)
  returning *\<close>
\<close>

definition insert_comment ::
  "database \<Rightarrow> nat \<Rightarrow> nat \<Rightarrow> nat \<Rightarrow> string \<Rightarrow> database \<times> (string \<times> json) list list"
where
  "insert_comment db now pid uid cont =
     (let row = \<lparr>comment_postId = pid, comment_userId = uid, content = cont,
                 comment_createdAt = now\<rparr>
      in (db\<lparr>comments := comments db @ [row]\<rparr>, [comment_json row]))"

text \<open>\<^verbatim>\<open>select "username" from "users" where "userId" = $1\<close>\<close>

definition select_username :: "database \<Rightarrow> nat \<Rightarrow> (string \<times> json) list list" where
  "select_username db uid =
     map (\<lambda>u. [(''username'', JStr (username u))]) (filter (\<lambda>u. userId u = uid) (users db))"

definition like_json :: "like_row \<Rightarrow> (string \<times> json) list" where
  "like_json l =
     [(''postId'', JNum (int (like_postId l))), (''userId'', JNum (int (like_userId l)))]"

text \<open>
  \<^verbatim>\<open>insert into "likePosts" ("postId", "userId") values ($1, $2)
  on conflict do nothing returning *\<close>
  With the uniqueness constraint a row that is already there is a conflict: nothing is
  inserted and no row is returned. Without the constraint nothing conflicts.
\<close>

definition insert_like ::
  "bool \<Rightarrow> database \<Rightarrow> nat \<Rightarrow> nat \<Rightarrow> database \<times> (string \<times> json) list list"
where
  "insert_like uniq db pid uid =
     (let row = \<lparr>like_postId = pid, like_userId = uid\<rparr>
      in if uniq \<and> row \<in> set (likePosts db) then (db, [])
         else (db\<lparr>likePosts := likePosts db @ [row]\<rparr>, [like_json row]))"

text \<open>
  \<^verbatim>\<open>delete from "likePosts" where "postId" = $1 and "userId" = $2 returning *\<close>
\<close>

definition delete_like :: "database \<Rightarrow> nat \<Rightarrow> nat \<Rightarrow> database \<times> (string \<times> json) list list" where
  "delete_like db pid uid =
     (let hit = (\<lambda>l. like_postId l = pid \<and> like_userId l = uid)
      in (db\<lparr>likePosts := filter (\<lambda>l. \<not> hit l) (likePosts db)\<rparr>,
          map like_json (filter hit (likePosts db))))"

section \<open>jsonwebtoken\<close>

text \<open>
  \<open>jwt.sign(payload, secret)\<close> without options: the library adds the time of issue and no
  expiry. When the secret is missing or empty it throws a plain \<open>Error\<close>.
\<close>

definition jwt_sign :: "payload \<Rightarrow> string option \<Rightarrow> nat \<Rightarrow> error + access_token" where
  "jwt_sign p secret now =
     (case secret of
        None \<Rightarrow> Inl (Error ''secretOrPrivateKey must have a value'')
      | Some k \<Rightarrow>
          if k = [] then Inl (Error ''secretOrPrivateKey must have a value'')
          else Inr (Signed k p now None))"

text \<open>
  \<open>jwt.verify(token, secret)\<close>: the token must be well formed, signed with the secret,
  and not past its expiry if it has one.
\<close>

definition jwt_verify :: "access_token \<Rightarrow> string option \<Rightarrow> nat \<Rightarrow> error + payload" where
  "jwt_verify token secret now =
     (case token of
        Malformed s \<Rightarrow> Inl (JsonWebTokenError ''jwt malformed'')
      | Signed k p i e \<Rightarrow>
          (case secret of
             None \<Rightarrow> Inl (JsonWebTokenError ''secret or public key must be provided'')
           | Some k' \<Rightarrow>
               if k' = [] then Inl (JsonWebTokenError ''secret or public key must be provided'')
               else if k \<noteq> k' then Inl (JsonWebTokenError ''invalid signature'')
               else (case e of
                       None \<Rightarrow> Inr p
                     | Some x \<Rightarrow> if x \<le> now then Inl (JsonWebTokenError ''jwt expired'')
                                 else Inr p)))"

section \<open>The handlers\<close>

text \<open>
  A field of the JSON body is \<open>None\<close> when the body does not have it. The fields are the
  texts and numbers that the columns hold, but for the password of sign-in, which is
  taken as the body has it; \<open>!x\<close> is true of a missing field, of the empty text and of
  the number 0.
\<close>

definition truthy :: "string option \<Rightarrow> bool" where
  "truthy x = (case x of None \<Rightarrow> False | Some s \<Rightarrow> s \<noteq> [])"

text \<open>
  \<open>!x\<close> for a field that is taken as the body has it: false of a missing field, of
  \<open>null\<close>, of \<open>false\<close>, of the number 0 and of the empty text, true of everything else.
\<close>

definition truthy_json :: "json option \<Rightarrow> bool" where
  "truthy_json x =
     (case x of
        None \<Rightarrow> False
      | Some JNull \<Rightarrow> False
      | Some (JBool b) \<Rightarrow> b
      | Some (JNum n) \<Rightarrow> n \<noteq> 0
      | Some (JStr t) \<Rightarrow> t \<noteq> []
      | Some _ \<Rightarrow> True)"

text \<open>The value of a field that the body has.\<close>

definition field :: "json option \<Rightarrow> json" where
  "field x = (case x of None \<Rightarrow> JNull | Some v \<Rightarrow> v)"

definition truthy_num :: "nat option \<Rightarrow> bool" where
  "truthy_num x = (case x of None \<Rightarrow> False | Some n \<Rightarrow> n \<noteq> 0)"

definition str :: "string option \<Rightarrow> string" where
  "str x = (case x of None \<Rightarrow> [] | Some s \<Rightarrow> s)"

definition number :: "nat option \<Rightarrow> nat" where
  "number x = (case x of None \<Rightarrow> 0 | Some n \<Rightarrow> n)"

text \<open>\<open>const [row] = result.rows\<close>, then \<open>res.json(row)\<close>.\<close>

definition first_row :: "(string \<times> json) list list \<Rightarrow> json option" where
  "first_row rows = (case rows of [] \<Rightarrow> None | r # _ \<Rightarrow> Some (JObj r))"

type_synonym reply = "database \<times> call list \<times> (error + response)"

definition db_of :: "reply \<Rightarrow> database" where
  "db_of r = fst r"


definition result_of :: "reply \<Rightarrow> error + response" where
  "result_of r = snd (snd r)"

text \<open>
  \<open>POST /api/auth/sign-up\<close>. A \<open>throw\<close> in the handler and \<open>next(err)\<close> in the \<open>catch\<close> of
  the promise both hand the error to Express's error handling: both are \<open>Inl\<close>.
\<close>

definition sign_up ::
  "config \<Rightarrow> string \<Rightarrow> database \<Rightarrow> string option \<Rightarrow> string option \<Rightarrow> string option \<Rightarrow> reply"
where
  "sign_up ctx salt db name password mail =
     (if \<not> truthy name \<or> \<not> truthy password \<or> \<not> truthy mail
      then (db, [], Inl (ClientError 400 ''username password, and email are required fields''))
      else
        let hashed = argon2_hash ctx salt (str password)
        in case insert_user db (str name) hashed (str mail) of
             (db', Inl err) \<Rightarrow> (db', [Argon2_hash, Db_query InsertUser], Inl err)
           | (db', Inr rows) \<Rightarrow>
               (db', [Argon2_hash, Db_query InsertUser], Inr (Response 201 (first_row rows))))"



text \<open>
  \<open>POST /api/auth/sign-in\<close>; \<open>res.json\<close> without a status answers 200. The username is a
  text; the password goes to \<open>argon2.verify\<close> as the body has it. When the promise of
  \<open>argon2.verify\<close> rejects, neither \<open>throw\<close> of the inner \<open>then\<close> is reached and the
  \<open>catch\<close> hands the library's error to \<open>next\<close>.
\<close>

definition sign_in ::
  "config \<Rightarrow> nat \<Rightarrow> database \<Rightarrow> string option \<Rightarrow> json option \<Rightarrow> reply"
where
  "sign_in ctx now db name password =
     (if \<not> truthy name \<or> \<not> truthy_json password
      then (db, [], Inl (ClientError 401 ''invalid login''))
      else
        case select_user db (str name) of
          [] \<Rightarrow> (db, [Db_query SelectUser], Inl (ClientError 401 ''invalid login''))
        | user # _ \<Rightarrow>
            (case argon2_verify ctx (hashedPassword user) (field password) of
               Inl err \<Rightarrow> (db, [Db_query SelectUser, Argon2_verify], Inl err)
             | Inr isMatching \<Rightarrow>
                 if \<not> isMatching
                 then (db, [Db_query SelectUser, Argon2_verify],
                       Inl (ClientError 401 ''invalid login''))
                 else
                   (case jwt_sign (Payload (userId user) (str name)) (TOKEN_SECRET ctx) now of
                      Inl err \<Rightarrow> (db, [Db_query SelectUser, Argon2_verify, Jwt_sign], Inl err)
                    | Inr token \<Rightarrow>
                        (db, [Db_query SelectUser, Argon2_verify, Jwt_sign],
                         Inr (Response 200 (Some (JObj
                           [(''token'', JToken token),
                            (''user'', JObj [(''userId'', JNum (int (userId user))),
                                             (''username'', JStr (str name))])])))))))"

text \<open>
  \<open>POST /api/posts\<close>, after the gate has set \<open>req.user\<close>.
\<close>

definition create_post ::
  "payload \<Rightarrow> nat \<Rightarrow> database \<Rightarrow> string option \<Rightarrow> string option \<Rightarrow> string option
    \<Rightarrow> string option \<Rightarrow> reply"
where
  "create_post user now db img summ ttl bdy =
     (if \<not> truthy img \<or> \<not> truthy summ \<or> \<not> truthy ttl \<or> \<not> truthy bdy
      then (db, [],
            Inl (ClientError 400 ''imageUrl, summary, title and body are required fields''))
      else
        case insert_post db now (payload_userId user) (str img) (str summ) (str ttl) (str bdy) of
          (db', rows) \<Rightarrow> (db', [Db_query InsertPost], Inr (Response 201 (first_row rows))))"

text \<open>
  \<open>POST /api/comments\<close>: the comment is inserted, then the author's name is selected
  and \<open>{ ...commentData, ...username }\<close> is sent.
\<close>

definition spread :: "(string \<times> json) list list \<Rightarrow> (string \<times> json) list" where
  "spread rows = (case rows of [] \<Rightarrow> [] | r # _ \<Rightarrow> r)"

definition create_comment ::
  "payload \<Rightarrow> nat \<Rightarrow> database \<Rightarrow> nat option \<Rightarrow> string option \<Rightarrow> reply"
where
  "create_comment user now db pid cont =
     (if \<not> truthy_num pid \<or> payload_userId user = 0 \<or> \<not> truthy cont
      then (db, [], Inl (ClientError 400 ''postId, userId, and content are required fields''))
      else
        case insert_comment db now (number pid) (payload_userId user) (str cont) of
          (db', firstRows) \<Rightarrow>
            (db', [Db_query InsertComment, Db_query SelectUsername],
             Inr (Response 201 (Some (JObj
               (spread firstRows @ spread (select_username db' (payload_userId user))))))))"

text \<open>\<open>POST /api/likes\<close>\<close>

definition like ::
  "config \<Rightarrow> payload \<Rightarrow> database \<Rightarrow> nat option \<Rightarrow> reply"
where
  "like ctx user db pid =
     (if \<not> truthy_num pid \<or> payload_userId user = 0
      then (db, [], Inl (ClientError 400 ''postId and userId are required fields''))
      else
        case insert_like (likePosts_unique ctx) db (number pid) (payload_userId user) of
          (db', rows) \<Rightarrow> (db', [Db_query InsertLike], Inr (Response 201 (first_row rows))))"

text \<open>
  \<open>DELETE /api/likes/:postId\<close>; the argument is \<open>Number(req.params.postId)\<close>, taken to be a
  natural number.
\<close>

definition unlike :: "payload \<Rightarrow> database \<Rightarrow> nat \<Rightarrow> reply" where
  "unlike user db pid =
     (case delete_like db pid (payload_userId user) of
        (db', rows) \<Rightarrow> (db', [Db_query DeleteLike], Inr (Response 204 (Some (JArr (map JObj rows))))))"

section \<open>The authorization gate and the routes behind it\<close>

text \<open>
  Modelled from the spec: the authorization middleware (the module
  \<open>./authorization-middleware\<close>, which the server requires and which is not among the
  sources). It verifies the token of the request against the server secret; on success it
  returns the identity \<open>{accountId, loginName}\<close> of the token; on any verification failure
  (missing token, malformed token, bad signature, expired token) it fails with
  \<open>AuthenticationError\<close>. It reads and writes no state.
\<close>

definition authorizationMiddleware ::
  "config \<Rightarrow> nat \<Rightarrow> access_token option \<Rightarrow> call list \<times> (error + payload)"
where
  "authorizationMiddleware ctx now token =
     (case token of
        None \<Rightarrow> ([], Inl AuthenticationError)
      | Some t \<Rightarrow>
          (case jwt_verify t (TOKEN_SECRET ctx) now of
             Inl err \<Rightarrow> ([Jwt_verify], Inl AuthenticationError)
           | Inr p \<Rightarrow> ([Jwt_verify], Inr p)))"

text \<open>
  \<open>app.post(path, authorizationMiddleware, handler)\<close>: Express runs the middleware first and
  the handler only when the middleware has called \<open>next()\<close> without an error.
\<close>

definition gated ::
  "call list \<times> (error + payload) \<Rightarrow> (payload \<Rightarrow> database \<Rightarrow> reply) \<Rightarrow> database \<Rightarrow> reply"
where
  "gated gate handler db =
     (case gate of
        (cs, Inl err) \<Rightarrow> (db, cs, Inl err)
      | (cs, Inr user) \<Rightarrow>
          (case handler user db of (db', cs', r) \<Rightarrow> (db', cs @ cs', r)))"

definition post_api_posts ::
  "config \<Rightarrow> nat \<Rightarrow> access_token option \<Rightarrow> database \<Rightarrow> string option \<Rightarrow> string option
    \<Rightarrow> string option \<Rightarrow> string option \<Rightarrow> reply"
where
  "post_api_posts ctx now token db img summ ttl bdy =
     gated (authorizationMiddleware ctx now token)
       (\<lambda>user db. create_post user now db img summ ttl bdy) db"

definition post_api_comments ::
  "config \<Rightarrow> nat \<Rightarrow> access_token option \<Rightarrow> database \<Rightarrow> nat option \<Rightarrow> string option \<Rightarrow> reply"
where
  "post_api_comments ctx now token db pid cont =
     gated (authorizationMiddleware ctx now token)
       (\<lambda>user db. create_comment user now db pid cont) db"

definition post_api_likes ::
  "config \<Rightarrow> nat \<Rightarrow> access_token option \<Rightarrow> database \<Rightarrow> nat option \<Rightarrow> reply"
where
  "post_api_likes ctx now token db pid =
     gated (authorizationMiddleware ctx now token) (\<lambda>user db. like ctx user db pid) db"

definition delete_api_likes ::
  "config \<Rightarrow> nat \<Rightarrow> access_token option \<Rightarrow> database \<Rightarrow> nat \<Rightarrow> reply"
where
  "delete_api_likes ctx now token db pid =
     gated (authorizationMiddleware ctx now token) (\<lambda>user db. unlike user db pid) db"

section \<open>A configuration to run the handlers on\<close>

text \<open>
  A stand-in for argon2 that keeps the salt in the digest, for running the handlers on
  concrete requests. It is no password hash. Like argon2, its verification rejects with
  a \<open>TypeError\<close> when the plain is not a text.
\<close>

definition demo_hash :: "string \<Rightarrow> string \<Rightarrow> string" where
  "demo_hash salt plain = plain @ ''$'' @ salt"

definition demo_verify :: "string \<Rightarrow> json \<Rightarrow> error + bool" where
  "demo_verify digest plain =
     (case plain of
        JStr t \<Rightarrow> Inr (take (Suc (length t)) digest = t @ ''$'')
      | _ \<Rightarrow> Inl (TypeError ''The first argument must be of type string or an instance of Buffer''))"

definition demo_config :: config where
  "demo_config =
     \<lparr>TOKEN_SECRET = Some ''secret'', argon2_hash = demo_hash, argon2_verify = demo_verify,
      likePosts_unique = True\<rparr>"

definition alice :: user_row where
  "alice = \<lparr>userId = 1, username = ''alice'', hashedPassword = ''correcthorse$na'',
            email = ''a@x.com''\<rparr>"

definition demo_database :: database where
  "demo_database =
     \<lparr>users = [alice], posts = [], comments = [],
      likePosts = [\<lparr>like_postId = 3, like_userId = 1\<rparr>]\<rparr>"

section \<open>Validation at sign-up\<close>

text \<open>
  C4. A sign-up request in which the username, the password or the email is missing or
  empty fails with \<open>ClientError(400, ...)\<close> (the spec's \<open>ValidationError\<close>); the database is
  what it was and no call has been made to argon2 or to the database.
\<close>

theorem sign_up_missing_field:
  assumes "\<not> truthy name \<or> \<not> truthy password \<or> \<not> truthy mail"
  shows "sign_up ctx salt db name password mail =
           (db, [], Inl (ClientError 400 ''username password, and email are required fields''))"
  using assms by (simp add: sign_up_def)

theorem sign_up_missing_field_witness:
  "\<not> truthy None
   \<and> sign_up demo_config ''na'' demo_database (Some ''bob'') None (Some ''b@x.com'') =
       (demo_database, [], Inl (ClientError 400 ''username password, and email are required fields''))"
  using sign_up_missing_field [of "Some ''bob''" None "Some ''b@x.com''" demo_config "''na''" demo_database]
  by (simp add: truthy_def)

section \<open>Sign-up: conflict and response\<close>





text \<open>
  C6. The answer to a sign-up that succeeds has status 201 and a body with exactly the
  fields \<open>userId\<close>, \<open>username\<close> and \<open>email\<close> of the row that was added; neither the hash
  nor the password is a field of it.
\<close>

theorem sign_up_response_public_fields:
  assumes "result_of (sign_up ctx salt db name password mail) = Inr r"
  shows "\<exists>u. users (db_of (sign_up ctx salt db name password mail)) = users db @ [u]
           \<and> username u = str name \<and> email u = str mail
           \<and> r = Response 201 (Some (JObj
                 [(''userId'', JNum (int (userId u))), (''username'', JStr (str name)),
                  (''email'', JStr (str mail))]))"
  using assms
  by (auto simp add: sign_up_def result_of_def db_of_def insert_user_def Let_def first_row_def
      user_public_def split: if_splits)

theorem sign_up_response_public_fields_witness:
  "result_of (sign_up demo_config ''nb'' demo_database (Some ''bob'') (Some ''pw'')
      (Some ''b@x.com'')) =
     Inr (Response 201 (Some (JObj [(''userId'', JNum 2), (''username'', JStr ''bob''),
       (''email'', JStr ''b@x.com'')])))
   \<and> (\<exists>u. users (db_of (sign_up demo_config ''nb'' demo_database (Some ''bob'') (Some ''pw'')
                (Some ''b@x.com''))) = users demo_database @ [u]
          \<and> userId u = 2 \<and> username u = ''bob'' \<and> email u = ''b@x.com'')"
proof -
  have sent: "result_of (sign_up demo_config ''nb'' demo_database (Some ''bob'') (Some ''pw'')
          (Some ''b@x.com'')) =
        Inr (Response 201 (Some (JObj [(''userId'', JNum 2), (''username'', JStr ''bob''),
            (''email'', JStr ''b@x.com'')])))"
    by (simp add: sign_up_def result_of_def truthy_def str_def insert_user_def Let_def
        demo_database_def alice_def fresh_id_def first_row_def user_public_def)
  from sign_up_response_public_fields [OF sent] sent show ?thesis
    by (auto simp add: str_def)
qed

section \<open>Sign-in\<close>

text \<open>
  When \<open>argon2.verify\<close> rejects, sign-in fails with the library's error. When the username
  is unknown, and when \<open>argon2.verify\<close> resolves to \<open>false\<close>, it fails with
  \<open>ClientError(401, 'invalid login')\<close>.
\<close>

lemma sign_in_verify_rejected:
  assumes "select_user db name = u # us" and "name \<noteq> []" and "truthy_json (Some pw)"
      and "argon2_verify ctx (hashedPassword u) pw = Inl err"
  shows "sign_in ctx now db (Some name) (Some pw) =
           (db, [Db_query SelectUser, Argon2_verify], Inl err)"
  using assms by (simp add: sign_in_def truthy_def str_def field_def)

lemma sign_in_unknown_account:
  assumes "select_user db (str name) = []"
  shows "result_of (sign_in ctx now db name password) = Inl (ClientError 401 ''invalid login'')"
  using assms by (simp add: sign_in_def result_of_def)

lemma sign_in_wrong_password:
  assumes "select_user db name = u # us"
      and "argon2_verify ctx (hashedPassword u) (field password) = Inr False"
  shows "result_of (sign_in ctx now db (Some name) password) =
           Inl (ClientError 401 ''invalid login'')"
  using assms by (simp add: sign_in_def result_of_def str_def)

text \<open>
  C1. Failures of sign-in for a registered account and for an unknown account are to be
  the same error. They are when the password is a wrong text: then \<open>alice\<close>, who is
  registered, gets \<open>ClientError(401, 'invalid login')\<close>, as the unknown \<open>bob\<close> does. They
  are not when the password is the number 1, which the guard \<open>!password\<close> lets through
  and \<open>argon2.verify\<close> rejects: \<open>alice\<close> gets the \<open>TypeError\<close> of the library, \<open>bob\<close> gets
  \<open>ClientError(401, 'invalid login')\<close>.
\<close>

theorem sign_in_rejected_verify_tells_accounts_apart:
  "result_of (sign_in demo_config 5 demo_database (Some ''alice'') (Some (JNum 1))) =
     Inl (TypeError ''The first argument must be of type string or an instance of Buffer'')
   \<and> result_of (sign_in demo_config 5 demo_database (Some ''bob'') (Some (JNum 1))) =
     Inl (ClientError 401 ''invalid login'')
   \<and> result_of (sign_in demo_config 5 demo_database (Some ''alice'') (Some (JStr ''wrong''))) =
     Inl (ClientError 401 ''invalid login'')"
proof -
  have registered: "select_user demo_database ''alice'' = [alice]"
    by (simp add: select_user_def demo_database_def alice_def)
  have unknown: "select_user demo_database (str (Some ''bob'')) = []"
    by (simp add: select_user_def demo_database_def alice_def str_def)
  have rejected: "argon2_verify demo_config (hashedPassword alice) (JNum 1) =
      Inl (TypeError ''The first argument must be of type string or an instance of Buffer'')"
    by (simp add: demo_config_def demo_verify_def)
  have wrong: "argon2_verify demo_config (hashedPassword alice) (field (Some (JStr ''wrong''))) =
      Inr False"
    by (simp add: demo_config_def demo_verify_def alice_def field_def)
  have "truthy_json (Some (JNum 1))"
    by (simp add: truthy_json_def)
  then have "sign_in demo_config 5 demo_database (Some ''alice'') (Some (JNum 1)) =
      (demo_database, [Db_query SelectUser, Argon2_verify],
       Inl (TypeError ''The first argument must be of type string or an instance of Buffer''))"
    using registered rejected by (intro sign_in_verify_rejected) simp_all
  then show ?thesis
    using sign_in_unknown_account [OF unknown] sign_in_wrong_password [OF registered wrong]
    by (simp add: result_of_def)
qed

theorem sign_in_rejected_verify_tells_accounts_apart_witness:
  "result_of (sign_in demo_config 5 demo_database (Some ''alice'') (Some (JNum 1))) \<noteq>
   result_of (sign_in demo_config 5 demo_database (Some ''bob'') (Some (JNum 1)))"
  using sign_in_rejected_verify_tells_accounts_apart by simp



text \<open>
  C10. The token that sign-in issues carries the payload \<open>{ userId, username }\<close>, the
  time of issue and no expiry; with the secret unchanged, \<open>jwt.verify\<close> accepts it at every
  later time.
\<close>

theorem issued_token_never_expires:
  assumes "result_of (sign_in ctx now db name password) = Inr r"
  shows "\<exists>k uid. TOKEN_SECRET ctx = Some k
           \<and> r = Response 200 (Some (JObj
                 [(''token'', JToken (Signed k (Payload uid (str name)) now None)),
                  (''user'', JObj [(''userId'', JNum (int uid)), (''username'', JStr (str name))])]))
           \<and> (\<forall>later. jwt_verify (Signed k (Payload uid (str name)) now None) (TOKEN_SECRET ctx) later
                  = Inr (Payload uid (str name)))"
  using assms
  by (auto simp add: sign_in_def result_of_def jwt_sign_def jwt_verify_def
      split: if_splits list.splits option.splits sum.splits)

theorem issued_token_never_expires_witness:
  "result_of (sign_in demo_config 5 demo_database (Some ''alice'') (Some (JStr ''correcthorse''))) =
     Inr (Response 200 (Some (JObj
       [(''token'', JToken (Signed ''secret'' (Payload 1 ''alice'') 5 None)),
        (''user'', JObj [(''userId'', JNum 1), (''username'', JStr ''alice'')])])))
   \<and> (\<forall>later. jwt_verify (Signed ''secret'' (Payload 1 ''alice'') 5 None)
                 (TOKEN_SECRET demo_config) later = Inr (Payload 1 ''alice''))"
proof -
  have sent: "result_of (sign_in demo_config 5 demo_database (Some ''alice'')
          (Some (JStr ''correcthorse''))) =
        Inr (Response 200 (Some (JObj
          [(''token'', JToken (Signed ''secret'' (Payload 1 ''alice'') 5 None)),
           (''user'', JObj [(''userId'', JNum 1), (''username'', JStr ''alice'')])])))"
    by (simp add: sign_in_def result_of_def truthy_def truthy_json_def field_def str_def
        select_user_def demo_database_def alice_def demo_config_def demo_verify_def jwt_sign_def)
  from issued_token_never_expires [OF sent] sent show ?thesis
    by (auto simp add: str_def)
qed

section \<open>The authorization gate\<close>

lemma gate_rejects:
  assumes "token = None \<or> (\<exists>t e. token = Some t \<and> jwt_verify t (TOKEN_SECRET ctx) now = Inl e)"
  shows "authorizationMiddleware ctx now token =
           (if token = None then [] else [Jwt_verify], Inl AuthenticationError)"
  using assms by (auto simp add: authorizationMiddleware_def)

text \<open>
  C5. Creating a post, creating a comment, liking and unliking are registered behind the
  authorization gate. When the token is missing or its verification fails, each of them
  fails with \<open>AuthenticationError\<close>; the handler is not run: the database is what it was
  and no statement has been sent to it.
\<close>

theorem unauthorized_write_rejected:
  assumes "token = None \<or> (\<exists>t e. token = Some t \<and> jwt_verify t (TOKEN_SECRET ctx) now = Inl e)"
  shows "post_api_posts ctx now token db img summ ttl bdy =
           (db, if token = None then [] else [Jwt_verify], Inl AuthenticationError)
       \<and> post_api_comments ctx now token db pid cont =
           (db, if token = None then [] else [Jwt_verify], Inl AuthenticationError)
       \<and> post_api_likes ctx now token db pid =
           (db, if token = None then [] else [Jwt_verify], Inl AuthenticationError)
       \<and> delete_api_likes ctx now token db pid' =
           (db, if token = None then [] else [Jwt_verify], Inl AuthenticationError)"
  by (simp add: post_api_posts_def post_api_comments_def post_api_likes_def
      delete_api_likes_def gated_def gate_rejects [OF assms])

theorem unauthorized_write_rejected_witness:
  "post_api_posts demo_config 9 (Some (Malformed ''garbage'')) demo_database
       (Some ''i'') (Some ''s'') (Some ''t'') (Some ''b'') =
     (demo_database, [Jwt_verify], Inl AuthenticationError)
   \<and> post_api_comments demo_config 9 (Some (Malformed ''garbage'')) demo_database
       (Some 3) (Some ''hello'') =
     (demo_database, [Jwt_verify], Inl AuthenticationError)
   \<and> post_api_likes demo_config 9 (Some (Malformed ''garbage'')) demo_database (Some 3) =
     (demo_database, [Jwt_verify], Inl AuthenticationError)
   \<and> delete_api_likes demo_config 9 (Some (Malformed ''garbage'')) demo_database 3 =
     (demo_database, [Jwt_verify], Inl AuthenticationError)"
  using unauthorized_write_rejected [of "Some (Malformed ''garbage'')" demo_config 9
      demo_database "Some ''i''" "Some ''s''" "Some ''t''" "Some ''b''" "Some 3" "Some ''hello''" 3]
  by (simp add: jwt_verify_def)

end
